theory Spec2Isabelle
  imports Main
begin

section \<open>LockableType: objects, attribute dictionaries and the store\<close>

text \<open>
  \<^verbatim>\<open>lockable_type.py\<close> is modelled on an explicit store. An instance is an address; the
  store maps it to its class and its instance dictionary (\<^verbatim>\<open>__dict__\<close>), a map from
  attribute names to Python values. Attribute values are plain data (None, bool, int,
  str) and the four callables the class itself stores in an instance:
  \<^item> \<open>BoundStr\<close>, \<open>BoundLen\<close>: the methods \<^verbatim>\<open>self._str\<close> and \<^verbatim>\<open>self._len\<close> of the
    instance's class, bound to the instance that holds them (what
    \<^verbatim>\<open>self._original_str = self._str\<close> saves);
  \<^item> \<open>LambdaStr a\<close>, \<open>LambdaLen a\<close>: the closures \<^verbatim>\<open>lambda : self.str\<close> and
    \<^verbatim>\<open>lambda : self.len\<close> that \<^verbatim>\<open>lock()\<close> creates, with \<^verbatim>\<open>self\<close> the object at address \<open>a\<close>.
  A raise is the value \<open>Inl e\<close>; every operation returns the store as it is when the
  operation returns or raises, since a Python exception keeps the writes made before it.
\<close>

type_synonym addr = nat

datatype pyerr = AttributeError | TypeError | ValueError | OverflowError
  | RecursionError | IndexError | SystemError

datatype pyval = PyNone | PyBool bool | PyInt int | PyStr string
  | BoundStr | BoundLen | LambdaStr addr | LambdaLen addr

datatype pyclass = LockableType | Subclass string

record pyobj =
  cls :: pyclass
  attrs :: "string \<rightharpoonup> pyval"

record world =
  heap :: "addr \<rightharpoonup> pyobj"
  next_addr :: addr
  initial_hash :: int

text \<open>
  The concrete classes (\<^verbatim>\<open>symbols.py\<close>, \<^verbatim>\<open>production.py\<close>) and Python's builtin
  \<^verbatim>\<open>hash\<close> are not part of the two source files. They are parameters: \<open>builtin_hash\<close> is
  \<^verbatim>\<open>hash(v)\<close> on a data value, \<open>subclass_str\<close> and \<open>subclass_len\<close> are the \<^verbatim>\<open>_str\<close> and
  \<^verbatim>\<open>_len\<close> a subclass defines, as functions of the instance dictionary.
\<close>

record env =
  builtin_hash :: "pyval \<Rightarrow> int"
  subclass_str :: "string \<Rightarrow> (string \<rightharpoonup> pyval) \<Rightarrow> pyerr + string"
  subclass_len :: "string \<Rightarrow> (string \<rightharpoonup> pyval) \<Rightarrow> pyerr + int"

type_synonym 'a py = "world \<Rightarrow> (pyerr + 'a) \<times> world"

definition py_return :: "'a \<Rightarrow> 'a py" where
  "py_return x w = (Inr x, w)"

definition py_raise :: "pyerr \<Rightarrow> 'a py" where
  "py_raise e w = (Inl e, w)"

definition py_bind :: "'a py \<Rightarrow> ('a \<Rightarrow> 'b py) \<Rightarrow> 'b py" where
  "py_bind m f w = (case m w of (Inl e, w') \<Rightarrow> (Inl e, w') | (Inr x, w') \<Rightarrow> f x w')"

text \<open>Truth value of a Python value, as \<^verbatim>\<open>if self.locked:\<close> tests it.\<close>

fun truthy :: "pyval \<Rightarrow> bool" where
  "truthy PyNone = False"
| "truthy (PyBool b) = b"
| "truthy (PyInt i) = (i \<noteq> 0)"
| "truthy (PyStr s) = (s \<noteq> [])"
| "truthy BoundStr = True"
| "truthy BoundLen = True"
| "truthy (LambdaStr a) = True"
| "truthy (LambdaLen a) = True"

text \<open>Reading and writing one entry of an instance dictionary.\<close>

definition attr_of :: "world \<Rightarrow> addr \<Rightarrow> string \<Rightarrow> pyval option" where
  "attr_of w a name = (case heap w a of None \<Rightarrow> None | Some obj \<Rightarrow> attrs obj name)"

definition set_attr :: "addr \<Rightarrow> string \<Rightarrow> pyval \<Rightarrow> world \<Rightarrow> world" where
  "set_attr a name v w = (case heap w a of None \<Rightarrow> w
     | Some obj \<Rightarrow> w\<lparr>heap := (heap w)(a \<mapsto> obj\<lparr>attrs := (attrs obj)(name \<mapsto> v)\<rparr>)\<rparr>)"

text \<open>
  \<^verbatim>\<open>self.name\<close>: the instance dictionary first, then the class, where the model keeps the
  two methods that the code reads as attributes (\<^verbatim>\<open>_str\<close>, \<^verbatim>\<open>_len\<close>). An address with
  no object cannot occur in Python; the model answers \<open>SystemError\<close> there.
\<close>

definition getattr :: "addr \<Rightarrow> string \<Rightarrow> pyval py" where
  "getattr self name w =
     (case heap w self of None \<Rightarrow> (Inl SystemError, w)
      | Some obj \<Rightarrow>
         (case attrs obj name of Some v \<Rightarrow> (Inr v, w)
          | None \<Rightarrow> if name = ''_str'' then (Inr BoundStr, w)
                    else if name = ''_len'' then (Inr BoundLen, w)
                    else (Inl AttributeError, w)))"

text \<open>\<^verbatim>\<open>super().__setattr__(name, value)\<close> and \<^verbatim>\<open>self.__dict__[name] = value\<close>.\<close>

definition object_setattr :: "addr \<Rightarrow> string \<Rightarrow> pyval \<Rightarrow> unit py" where
  "object_setattr self name v w =
     (case heap w self of None \<Rightarrow> (Inl SystemError, w)
      | Some obj \<Rightarrow> (Inr (), set_attr self name v w))"

text \<open>
  \<^verbatim>\<open>LockableType._str\<close> with \<^verbatim>\<open>_USE_STRING = True\<close> returns \<^verbatim>\<open>super().__str__()\<close>, which is
  \<^verbatim>\<open>object.__str__\<close>, which calls \<^verbatim>\<open>__repr__\<close>, which calls \<^verbatim>\<open>__str__\<close> and so \<^verbatim>\<open>_str\<close>
  again: on the base class the call ends in RecursionError. \<^verbatim>\<open>LockableType._len\<close> raises
  TypeError. A subclass supplies its own two rules.
\<close>

definition method_str :: "env \<Rightarrow> addr \<Rightarrow> pyval py" where
  "method_str E self w =
     (case heap w self of None \<Rightarrow> (Inl SystemError, w)
      | Some obj \<Rightarrow>
         (case cls obj of LockableType \<Rightarrow> (Inl RecursionError, w)
          | Subclass c \<Rightarrow>
             (case subclass_str E c (attrs obj) of Inl e \<Rightarrow> (Inl e, w)
              | Inr s \<Rightarrow> (Inr (PyStr s), w))))"

definition method_len :: "env \<Rightarrow> addr \<Rightarrow> pyval py" where
  "method_len E self w =
     (case heap w self of None \<Rightarrow> (Inl SystemError, w)
      | Some obj \<Rightarrow>
         (case cls obj of LockableType \<Rightarrow> (Inl TypeError, w)
          | Subclass c \<Rightarrow>
             (case subclass_len E c (attrs obj) of Inl e \<Rightarrow> (Inl e, w)
              | Inr n \<Rightarrow> (Inr (PyInt n), w))))"

text \<open>Calling an attribute value with no arguments, as in \<^verbatim>\<open>self._str()\<close>.\<close>

fun call :: "env \<Rightarrow> addr \<Rightarrow> pyval \<Rightarrow> pyval py" where
  "call E self BoundStr = method_str E self"
| "call E self BoundLen = method_len E self"
| "call E self (LambdaStr a) = getattr a ''str''"
| "call E self (LambdaLen a) = getattr a ''len''"
| "call E self v = py_raise TypeError"

text \<open>
  \<^verbatim>\<open>__str__\<close>: \<^verbatim>\<open>return self._str()\<close>. \<^verbatim>\<open>__repr__\<close> returns \<^verbatim>\<open>self.__str__()\<close>, with the
  \<^verbatim>\<open>_USE_STRING = True\<close> of the class, and is the same function.
\<close>

definition str_method :: "env \<Rightarrow> addr \<Rightarrow> pyval py" where
  "str_method E self = py_bind (getattr self ''_str'') (call E self)"

text \<open>\<^verbatim>\<open>__len__\<close>: \<^verbatim>\<open>return self._len()\<close>.\<close>

definition len_method :: "env \<Rightarrow> addr \<Rightarrow> pyval py" where
  "len_method E self = py_bind (getattr self ''_len'') (call E self)"

text \<open>
  The builtins \<^verbatim>\<open>str(self)\<close> and \<^verbatim>\<open>len(self)\<close> check what the method returned: \<^verbatim>\<open>str\<close>
  wants a string, \<^verbatim>\<open>len\<close> an integer (a bool is one) that is not negative and fits
  a machine word.
\<close>

definition builtin_str :: "env \<Rightarrow> addr \<Rightarrow> string py" where
  "builtin_str E self = py_bind (str_method E self)
     (\<lambda>v. case v of PyStr s \<Rightarrow> py_return s | _ \<Rightarrow> py_raise TypeError)"

definition check_len :: "int \<Rightarrow> int py" where
  "check_len n = (if n < 0 then py_raise ValueError
     else if n > 2 ^ 63 - 1 then py_raise OverflowError else py_return n)"

definition builtin_len :: "env \<Rightarrow> addr \<Rightarrow> int py" where
  "builtin_len E self = py_bind (len_method E self)
     (\<lambda>v. case v of PyInt n \<Rightarrow> check_len n
          | PyBool b \<Rightarrow> check_len (if b then 1 else 0)
          | _ \<Rightarrow> py_raise TypeError)"

text \<open>
  \<^verbatim>\<open>__setattr__\<close>: when \<^verbatim>\<open>self.locked\<close> is true the message of the AttributeError is built
  first, and it calls \<^verbatim>\<open>self.__repr__()\<close>; otherwise the attribute is stored.
\<close>

definition setattr :: "env \<Rightarrow> addr \<Rightarrow> string \<Rightarrow> pyval \<Rightarrow> unit py" where
  "setattr E self name v =
     py_bind (getattr self ''locked'')
       (\<lambda>l. if truthy l
            then py_bind (str_method E self) (\<lambda>_. py_raise AttributeError)
            else object_setattr self name v)"

text \<open>
  Modelled from the spec: \<^verbatim>\<open>get_unique_hash\<close> of \<^verbatim>\<open>utilities.py\<close>, which is absent. The
  spec calls its result a process-unique identity token assigned at construction: a
  counter, incremented at every call.
\<close>

definition get_unique_hash :: "int py" where
  "get_unique_hash w = (Inr (initial_hash w + 1), w\<lparr>initial_hash := initial_hash w + 1\<rparr>)"

text \<open>Allocation of an instance with an empty dictionary, before \<^verbatim>\<open>__init__\<close> runs.\<close>

definition new_object :: "pyclass \<Rightarrow> addr py" where
  "new_object c w = (Inr (next_addr w),
     w\<lparr>heap := (heap w)(next_addr w \<mapsto> \<lparr>cls = c, attrs = Map.empty\<rparr>),
       next_addr := Suc (next_addr w)\<rparr>)"

text \<open>\<^verbatim>\<open>LockableType.__init__\<close>.\<close>

definition init :: "env \<Rightarrow> addr \<Rightarrow> unit py" where
  "init E self =
     py_bind (object_setattr self ''locked'' (PyBool False)) (\<lambda>_.
     py_bind (setattr E self ''locked'' (PyBool False)) (\<lambda>_.
     py_bind (setattr E self ''str'' (PyStr [])) (\<lambda>_.
     py_bind get_unique_hash (\<lambda>h.
     py_bind (setattr E self ''_hash'' (PyInt h)) (\<lambda>_.
     py_bind (getattr self ''_len'') (\<lambda>l.
     py_bind (setattr E self ''_original_len'' l) (\<lambda>_.
     py_bind (getattr self ''_str'') (\<lambda>s.
     py_bind (setattr E self ''_original_str'' s) (\<lambda>_.
     py_bind (getattr self ''_hash'') (\<lambda>h'.
     setattr E self ''_original_hash'' h'))))))))))"

text \<open>
  \<^verbatim>\<open>__hash__\<close> returns \<^verbatim>\<open>self._hash\<close>. The builtin \<^verbatim>\<open>hash(self)\<close> wants an integer from it
  (a bool is one) and makes a machine word of it, as CPython does on 64 bits: an integer
  of the signed 64-bit range is kept, any other is reduced as the hash of an integer is,
  to the sign times the absolute value modulo \<open>2 ^ 61 - 1\<close>, and \<open>-1\<close>, which is reserved
  for errors, becomes \<open>-2\<close>.
\<close>

definition slot_hash :: "int \<Rightarrow> int" where
  "slot_hash n =
     (let h = (if - (2 ^ 63) \<le> n \<and> n < 2 ^ 63 then n
               else sgn n * (\<bar>n\<bar> mod (2 ^ 61 - 1)))
      in if h = - 1 then - 2 else h)"

definition hash_method :: "addr \<Rightarrow> int py" where
  "hash_method self = py_bind (getattr self ''_hash'')
     (\<lambda>v. case v of PyInt i \<Rightarrow> py_return (slot_hash i)
          | PyBool b \<Rightarrow> py_return (slot_hash (if b then 1 else 0))
          | _ \<Rightarrow> py_raise TypeError)"

text \<open>
  \<^verbatim>\<open>__eq__(self, other)\<close>. The other operand is a LockableType instance of the store, or
  any value that is not one.
\<close>

datatype operand = Ref addr | Val pyval

fun isinstance_LockableType :: "operand \<Rightarrow> bool" where
  "isinstance_LockableType (Ref a) = True"
| "isinstance_LockableType (Val v) = False"

fun hash_operand :: "env \<Rightarrow> operand \<Rightarrow> int py" where
  "hash_operand E (Ref a) = hash_method a"
| "hash_operand E (Val v) = py_return (builtin_hash E v)"

definition eq :: "env \<Rightarrow> addr \<Rightarrow> operand \<Rightarrow> bool py" where
  "eq E self other =
     (if isinstance_LockableType (Ref self) = isinstance_LockableType other
      then py_bind (hash_method self) (\<lambda>h1.
           py_bind (hash_operand E other) (\<lambda>h2. py_return (h1 = h2)))
      else py_raise TypeError)"

text \<open>\<^verbatim>\<open>unlock()\<close>.\<close>

definition unlock :: "env \<Rightarrow> addr \<Rightarrow> unit py" where
  "unlock E self =
     py_bind (getattr self ''locked'') (\<lambda>l.
       if \<not> truthy l then py_return ()
       else
         py_bind (object_setattr self ''locked'' (PyBool False)) (\<lambda>_.
         py_bind (getattr self ''_original_len'') (\<lambda>ol.
         py_bind (setattr E self ''_len'' ol) (\<lambda>_.
         py_bind (getattr self ''_original_str'') (\<lambda>os.
         py_bind (setattr E self ''_str'' os) (\<lambda>_.
         py_bind (getattr self ''_original_hash'') (\<lambda>oh.
         setattr E self ''_hash'' oh)))))))"

text \<open>\<^verbatim>\<open>lock()\<close>.\<close>

definition lock :: "env \<Rightarrow> addr \<Rightarrow> unit py" where
  "lock E self =
     py_bind (getattr self ''locked'') (\<lambda>l.
       if truthy l then py_return ()
       else
         py_bind (builtin_str E self) (\<lambda>s.
         py_bind (setattr E self ''str'' (PyStr s)) (\<lambda>_.
         py_bind (setattr E self ''_str'' (LambdaStr self)) (\<lambda>_.
         py_bind (builtin_len E self) (\<lambda>n.
         py_bind (setattr E self ''len'' (PyInt n)) (\<lambda>_.
         py_bind (setattr E self ''_len'' (LambdaLen self)) (\<lambda>_.
         py_bind (str_method E self) (\<lambda>v.
         py_bind (setattr E self ''_hash'' (PyInt (builtin_hash E v))) (\<lambda>_.
         setattr E self ''locked'' (PyBool True))))))))))"

text \<open>
  \<^verbatim>\<open>copy.deepcopy(self)\<close>: a new instance of the same class is allocated without running
  \<^verbatim>\<open>__init__\<close>, and its dictionary is filled, not going through \<^verbatim>\<open>__setattr__\<close>, with the
  deep copies of the source's entries. None, bool, int and str are atomic; a bound method
  is copied as the same function bound to the copy of its instance, so a method bound to
  the source becomes one bound to the copy; a function, and so each closure made by
  \<^verbatim>\<open>lock()\<close>, is atomic: the copy is the same closure, over the same \<^verbatim>\<open>self\<close>.
\<close>

fun deepcopy_val :: "pyval \<Rightarrow> pyval" where
  "deepcopy_val PyNone = PyNone"
| "deepcopy_val (PyBool b) = PyBool b"
| "deepcopy_val (PyInt i) = PyInt i"
| "deepcopy_val (PyStr s) = PyStr s"
| "deepcopy_val BoundStr = BoundStr"
| "deepcopy_val BoundLen = BoundLen"
| "deepcopy_val (LambdaStr a) = LambdaStr a"
| "deepcopy_val (LambdaLen a) = LambdaLen a"

definition deepcopy :: "addr \<Rightarrow> addr py" where
  "deepcopy self w =
     (case heap w self of None \<Rightarrow> (Inl SystemError, w)
      | Some obj \<Rightarrow> (Inr (next_addr w),
          w\<lparr>heap := (heap w)(next_addr w \<mapsto>
                \<lparr>cls = cls obj, attrs = map_option deepcopy_val \<circ> attrs obj\<rparr>),
            next_addr := Suc (next_addr w)\<rparr>))"

text \<open>\<^verbatim>\<open>new(unlocked=True)\<close>.\<close>

definition new :: "env \<Rightarrow> addr \<Rightarrow> bool \<Rightarrow> addr py" where
  "new E self unlocked =
     py_bind (deepcopy self) (\<lambda>new_copy.
       if unlocked
       then py_bind (unlock E new_copy) (\<lambda>_. py_return new_copy)
       else py_bind (lock E new_copy) (\<lambda>_. py_return new_copy))"

text \<open>Class and dictionary of an instance, for stating properties.\<close>

definition cls_of :: "world \<Rightarrow> addr \<Rightarrow> pyclass option" where
  "cls_of w a = map_option cls (heap w a)"

definition dict_of :: "world \<Rightarrow> addr \<Rightarrow> (string \<rightharpoonup> pyval)" where
  "dict_of w a = (case heap w a of None \<Rightarrow> Map.empty | Some obj \<Rightarrow> attrs obj)"

subsection \<open>A subclass to run the operations on\<close>

text \<open>
  \<^verbatim>\<open>LockableType\<close> itself cannot be locked (its \<^verbatim>\<open>_len\<close> raises), and the subclasses of the
  repository are absent. The operations are run on a stand-in: a subclass that adds
  nothing to \<^verbatim>\<open>LockableType\<close> but a string attribute \<^verbatim>\<open>text\<close>, with \<^verbatim>\<open>_str\<close> returning that
  string and \<^verbatim>\<open>_len\<close> its length. It stands for no class of the repository.
\<close>

definition text_str :: "string \<Rightarrow> (string \<rightharpoonup> pyval) \<Rightarrow> pyerr + string" where
  "text_str c d = (case d ''text'' of Some (PyStr s) \<Rightarrow> Inr s
      | Some v \<Rightarrow> Inl TypeError | None \<Rightarrow> Inl AttributeError)"

definition text_len :: "string \<Rightarrow> (string \<rightharpoonup> pyval) \<Rightarrow> pyerr + int" where
  "text_len c d = (case d ''text'' of Some (PyStr s) \<Rightarrow> Inr (int (length s))
      | Some v \<Rightarrow> Inl TypeError | None \<Rightarrow> Inl AttributeError)"

definition text_env :: "(pyval \<Rightarrow> int) \<Rightarrow> env" where
  "text_env h = \<lparr>builtin_hash = h, subclass_str = text_str, subclass_len = text_len\<rparr>"

text \<open>A constructor call \<^verbatim>\<open>C()\<close> of a class that only runs \<^verbatim>\<open>LockableType.__init__\<close>.\<close>

definition construct :: "env \<Rightarrow> pyclass \<Rightarrow> addr py" where
  "construct E c =
     py_bind (new_object c) (\<lambda>self.
     py_bind (init E self) (\<lambda>_. py_return self))"

definition new_text_object :: "env \<Rightarrow> string \<Rightarrow> string \<Rightarrow> addr py" where
  "new_text_object E c text =
     py_bind (construct E (Subclass c)) (\<lambda>self.
     py_bind (setattr E self ''text'' (PyStr text)) (\<lambda>_. py_return self))"

text \<open>
  A store and a hash function to run the operations on: Python's \<^verbatim>\<open>hash\<close> of a string
  changes from process to process, and any function of the string can stand for it.
\<close>

fun example_hash :: "pyval \<Rightarrow> int" where
  "example_hash (PyStr s) = foldl (\<lambda>h c. (31 * h + int (of_char c)) mod 2 ^ 61) 7 s"
| "example_hash (PyInt i) = i"
| "example_hash (PyBool b) = (if b then 1 else 0)"
| "example_hash v = 0"

definition empty_world :: world where
  "empty_world = \<lparr>heap = Map.empty, next_addr = 0, initial_hash = 0\<rparr>"

definition word_a :: world where
  "word_a = snd (new_text_object (text_env example_hash) ''Word'' ''a'' empty_world)"


subsection \<open>States of an instance\<close>

text \<open>
  \<open>lockable E w self s n\<close>: the instance is unlocked, has the \<^verbatim>\<open>_str\<close> and \<^verbatim>\<open>_len\<close> of
  its class, and its class renders it as \<open>s\<close> with length \<open>n\<close> (the length rule runs when
  \<^verbatim>\<open>lock()\<close> has already stored \<^verbatim>\<open>str\<close> and \<^verbatim>\<open>_str\<close>). \<open>locked_as E w self s n\<close>: the
  instance is as \<^verbatim>\<open>lock()\<close> leaves it, with the cached rendering \<open>s\<close> and length \<open>n\<close>.
  \<open>constructed w self t\<close>: the three attributes saved by \<^verbatim>\<open>__init__\<close> are in place, with
  the identity token \<open>t\<close>. \<open>lock_writes\<close> and \<open>unlock_writes\<close> are the assignments of
  \<^verbatim>\<open>lock()\<close> and \<^verbatim>\<open>unlock()\<close>, in their order.
\<close>

definition lockable :: "env \<Rightarrow> world \<Rightarrow> addr \<Rightarrow> string \<Rightarrow> int \<Rightarrow> bool" where
  "lockable E w self s n =
     (case (cls_of w self, attr_of w self ''locked'') of
        (Some (Subclass c), Some l) \<Rightarrow>
            \<not> truthy l
          \<and> attr_of w self ''_str'' \<in> {None, Some BoundStr}
          \<and> attr_of w self ''_len'' \<in> {None, Some BoundLen}
          \<and> subclass_str E c (dict_of w self) = Inr s
          \<and> subclass_len E c ((dict_of w self)(''str'' \<mapsto> PyStr s, ''_str'' \<mapsto> LambdaStr self)) = Inr n
          \<and> 0 \<le> n \<and> n < 2 ^ 63
      | _ \<Rightarrow> False)"

definition locked_as :: "env \<Rightarrow> world \<Rightarrow> addr \<Rightarrow> string \<Rightarrow> int \<Rightarrow> bool" where
  "locked_as E w self s n =
     (attr_of w self ''locked'' = Some (PyBool True)
    \<and> attr_of w self ''str'' = Some (PyStr s)
    \<and> attr_of w self ''_str'' = Some (LambdaStr self)
    \<and> attr_of w self ''len'' = Some (PyInt n)
    \<and> attr_of w self ''_len'' = Some (LambdaLen self)
    \<and> attr_of w self ''_hash'' = Some (PyInt (builtin_hash E (PyStr s))))"

definition constructed :: "world \<Rightarrow> addr \<Rightarrow> int \<Rightarrow> bool" where
  "constructed w self t =
     (attr_of w self ''_original_len'' = Some BoundLen
    \<and> attr_of w self ''_original_str'' = Some BoundStr
    \<and> attr_of w self ''_original_hash'' = Some (PyInt t))"

definition lock_writes :: "env \<Rightarrow> addr \<Rightarrow> string \<Rightarrow> int \<Rightarrow> world \<Rightarrow> world" where
  "lock_writes E self s n w =
     set_attr self ''locked'' (PyBool True)
       (set_attr self ''_hash'' (PyInt (builtin_hash E (PyStr s)))
         (set_attr self ''_len'' (LambdaLen self)
           (set_attr self ''len'' (PyInt n)
             (set_attr self ''_str'' (LambdaStr self)
               (set_attr self ''str'' (PyStr s) w)))))"

definition unlock_writes :: "addr \<Rightarrow> int \<Rightarrow> world \<Rightarrow> world" where
  "unlock_writes self t w =
     set_attr self ''_hash'' (PyInt t)
       (set_attr self ''_str'' BoundStr
         (set_attr self ''_len'' BoundLen
           (set_attr self ''locked'' (PyBool False) w)))"

text \<open>Two constructor calls, one after the other, and the comparison of the two instances.\<close>

definition two_fresh_eq :: "env \<Rightarrow> pyclass \<Rightarrow> pyclass \<Rightarrow> bool py" where
  "two_fresh_eq E c1 c2 =
     py_bind (construct E c1) (\<lambda>x.
     py_bind (construct E c2) (\<lambda>y. eq E x (Ref y)))"

text \<open>
  Two instances built one after the other, each locked as soon as it is built; the
  comparison of an instance with one that a constructor call builds afterwards; and the
  comparison of an instance with the copy that \<^verbatim>\<open>new(unlocked=True)\<close> makes of it.
\<close>

definition locked_pair :: "env \<Rightarrow> string \<Rightarrow> string \<Rightarrow> string \<Rightarrow> string \<Rightarrow> (addr \<times> addr) py" where
  "locked_pair E c1 t1 c2 t2 =
     py_bind (new_text_object E c1 t1) (\<lambda>x.
     py_bind (lock E x) (\<lambda>_.
     py_bind (new_text_object E c2 t2) (\<lambda>y.
     py_bind (lock E y) (\<lambda>_. py_return (x, y)))))"

definition construct_then_eq :: "env \<Rightarrow> pyclass \<Rightarrow> addr \<Rightarrow> bool py" where
  "construct_then_eq E c self = py_bind (construct E c) (\<lambda>y. eq E self (Ref y))"

definition copy_eq :: "env \<Rightarrow> addr \<Rightarrow> bool py" where
  "copy_eq E self = py_bind (new E self True) (\<lambda>new_copy. eq E self (Ref new_copy))"

definition word_and_name_a :: world where
  "word_and_name_a =
     snd (locked_pair (text_env example_hash) ''Word'' ''a'' ''Name'' ''a'' empty_world)"

text \<open>
  \<open>copy_store self w\<close> is the store after \<^verbatim>\<open>copy.deepcopy(self)\<close>. \<open>aliasing_run\<close> clones a
  value with \<^verbatim>\<open>new(unlocked=False)\<close>, then unlocks the source, gives it another text and
  locks it again, and at last renders the clone, which was not touched.
\<close>

definition copy_store :: "addr \<Rightarrow> world \<Rightarrow> world" where
  "copy_store self w = snd (deepcopy self w)"


section \<open>The tree transformer\<close>

text \<open>
  \<^verbatim>\<open>tree_transformer.py\<close> builds symbols and productions by calling the constructors of
  \<^verbatim>\<open>symbols.py\<close> and \<^verbatim>\<open>production.py\<close>, which are absent. The values a handler receives
  and returns are modelled as the terms of these calls: \<open>Token ty s\<close> is a token of the
  external parser (a string \<open>s\<close> with a type), \<open>StrArg\<close> and \<open>ListArg\<close> are a Python string
  and a Python list, \<open>Terminal x\<close> and \<open>NonTerminal x\<close> are the objects built by
  \<^verbatim>\<open>Terminal(x)\<close> and \<^verbatim>\<open>NonTerminal(x)\<close>, \<open>Production locked xs\<close> is a production with
  its lock flag and the symbols added to it, in order, and \<open>Tree tag children\<close> is a node
  of the parse tree.
\<close>

datatype tvalue = Token string string
  | StrArg string
  | ListArg "tvalue list"
  | Terminal tvalue
  | NonTerminal tvalue
  | Production bool "tvalue list"
  | Tree string "tvalue list"

text \<open>
  \<^verbatim>\<open>str(_symbol)\<close>: a token is a string and renders as its text; the rendering of any
  other value is defined outside the two source files and is the parameter \<open>other\<close>.
\<close>

fun py_str :: "(tvalue \<Rightarrow> string) \<Rightarrow> tvalue \<Rightarrow> string" where
  "py_str other (Token ty s) = s"
| "py_str other (StrArg s) = s"
| "py_str other v = other v"

text \<open>
  Modelled from the spec: \<^verbatim>\<open>Production()\<close> and \<^verbatim>\<open>Production.add\<close> of \<^verbatim>\<open>production.py\<close>,
  which is absent. The spec says that a Production is created mutable and empty, and that
  \<^verbatim>\<open>add(symbol)\<close> appends the symbol while the production is mutable; on a locked
  production the write fails as every mutation of a locked value does.
\<close>

definition empty_production :: tvalue where
  "empty_production = Production False []"

fun add :: "tvalue \<Rightarrow> tvalue \<Rightarrow> pyerr + tvalue" where
  "add (Production locked symbols) symbol =
     (if locked then Inl AttributeError else Inr (Production locked (symbols @ [symbol])))"
| "add v symbol = Inl AttributeError"

text \<open>\<^verbatim>\<open>isinstance(production, (Terminal, NonTerminal))\<close>.\<close>

fun isinstance_symbol :: "tvalue \<Rightarrow> bool" where
  "isinstance_symbol (Terminal x) = True"
| "isinstance_symbol (NonTerminal x) = True"
| "isinstance_symbol v = False"

text \<open>\<^verbatim>\<open>_parse_symbol(self, _terminal, default)\<close>; \<^verbatim>\<open>_terminal\<close> is the list of children.\<close>

definition parse_symbol :: "tvalue list \<Rightarrow> string \<Rightarrow> pyerr + tvalue" where
  "parse_symbol the_terminal default_text =
     (if length the_terminal \<noteq> 0 then Inr (Terminal (ListArg the_terminal))
      else Inr (Terminal (StrArg default_text)))"

text \<open>\<^verbatim>\<open>_parse_symbols(self, _symbols, Type)\<close>.\<close>

definition parse_symbols ::
  "(tvalue \<Rightarrow> string) \<Rightarrow> tvalue list \<Rightarrow> (tvalue \<Rightarrow> tvalue) \<Rightarrow> pyerr + tvalue" where
  "parse_symbols other the_symbols Type =
     (let results = map (py_str other) the_symbols
      in Inr (Type (StrArg (concat results))))"

definition terminal :: "(tvalue \<Rightarrow> string) \<Rightarrow> tvalue list \<Rightarrow> pyerr + tvalue" where
  "terminal other the_terminals = parse_symbols other the_terminals Terminal"

definition non_terminal :: "(tvalue \<Rightarrow> string) \<Rightarrow> tvalue list \<Rightarrow> pyerr + tvalue" where
  "non_terminal other the_non_terminals = parse_symbols other the_non_terminals NonTerminal"

text \<open>\<^verbatim>\<open>non_terminal_start\<close>: \<^verbatim>\<open>non_terminal[0]\<close> raises IndexError on an empty list.\<close>

definition non_terminal_start :: "tvalue list \<Rightarrow> pyerr + tvalue" where
  "non_terminal_start the_non_terminal =
     (case the_non_terminal of [] \<Rightarrow> Inl IndexError
      | x # _ \<Rightarrow> add empty_production x)"

text \<open>\<^verbatim>\<open>production\<close>: the loop over the children, then the handler.\<close>

fun production_loop :: "tvalue \<Rightarrow> tvalue list \<Rightarrow> pyerr + tvalue" where
  "production_loop new_production [] = Inr new_production"
| "production_loop new_production (production # productions) =
     (if isinstance_symbol production
      then (case add new_production production of Inl e \<Rightarrow> Inl e
            | Inr p \<Rightarrow> production_loop p productions)
      else production_loop new_production productions)"

definition production :: "tvalue list \<Rightarrow> pyerr + tvalue" where
  "production productions = production_loop empty_production productions"

text \<open>
  The handlers of the literal meta-characters, one per tag, each with its default
  (a character outside ASCII, as the one of \<^verbatim>\<open>tick\<close>, is written by its code point).
\<close>

definition epsilon :: "tvalue list \<Rightarrow> pyerr + tvalue" where
  "epsilon the_terminal = parse_symbol the_terminal [CHR 0x26]"

definition quote :: "tvalue list \<Rightarrow> pyerr + tvalue" where
  "quote the_terminal = parse_symbol the_terminal [CHR 0x27]"

definition minus_tag :: "tvalue list \<Rightarrow> pyerr + tvalue" where
  "minus_tag the_terminal = parse_symbol the_terminal [CHR 0x2D]"

definition plus_tag :: "tvalue list \<Rightarrow> pyerr + tvalue" where
  "plus_tag the_terminal = parse_symbol the_terminal [CHR 0x2B]"

definition star :: "tvalue list \<Rightarrow> pyerr + tvalue" where
  "star the_terminal = parse_symbol the_terminal [CHR 0x2A]"

definition comma :: "tvalue list \<Rightarrow> pyerr + tvalue" where
  "comma the_terminal = parse_symbol the_terminal [CHR 0x2C]"

definition colon :: "tvalue list \<Rightarrow> pyerr + tvalue" where
  "colon the_terminal = parse_symbol the_terminal [CHR 0x3A]"

definition dot :: "tvalue list \<Rightarrow> pyerr + tvalue" where
  "dot the_terminal = parse_symbol the_terminal [CHR 0x2E]"

definition double_quote :: "tvalue list \<Rightarrow> pyerr + tvalue" where
  "double_quote the_terminal = parse_symbol the_terminal [CHR 0x22]"

definition percentage :: "tvalue list \<Rightarrow> pyerr + tvalue" where
  "percentage the_terminal = parse_symbol the_terminal [CHR 0x25]"

definition dollar :: "tvalue list \<Rightarrow> pyerr + tvalue" where
  "dollar the_terminal = parse_symbol the_terminal [CHR 0x24]"

definition at_sign :: "tvalue list \<Rightarrow> pyerr + tvalue" where
  "at_sign the_terminal = parse_symbol the_terminal [CHR 0x40]"

definition sharp :: "tvalue list \<Rightarrow> pyerr + tvalue" where
  "sharp the_terminal = parse_symbol the_terminal [CHR 0x23]"

definition exclamation :: "tvalue list \<Rightarrow> pyerr + tvalue" where
  "exclamation the_terminal = parse_symbol the_terminal [CHR 0x21]"

definition backtick :: "tvalue list \<Rightarrow> pyerr + tvalue" where
  "backtick the_terminal = parse_symbol the_terminal [CHR 0x60]"

definition tick :: "tvalue list \<Rightarrow> pyerr + tvalue" where
  "tick the_terminal = parse_symbol the_terminal [CHR 0xB4]"

definition caret :: "tvalue list \<Rightarrow> pyerr + tvalue" where
  "caret the_terminal = parse_symbol the_terminal [CHR 0x5E]"

definition tilde :: "tvalue list \<Rightarrow> pyerr + tvalue" where
  "tilde the_terminal = parse_symbol the_terminal [CHR 0x7E]"

definition question :: "tvalue list \<Rightarrow> pyerr + tvalue" where
  "question the_terminal = parse_symbol the_terminal [CHR 0x3F]"

definition equals :: "tvalue list \<Rightarrow> pyerr + tvalue" where
  "equals the_terminal = parse_symbol the_terminal [CHR 0x3D]"

definition semicolon :: "tvalue list \<Rightarrow> pyerr + tvalue" where
  "semicolon the_terminal = parse_symbol the_terminal [CHR 0x3B]"

definition slash :: "tvalue list \<Rightarrow> pyerr + tvalue" where
  "slash the_terminal = parse_symbol the_terminal [CHR 0x2F]"

definition backslash :: "tvalue list \<Rightarrow> pyerr + tvalue" where
  "backslash the_terminal = parse_symbol the_terminal [CHR 0x5C]"

definition open_paren :: "tvalue list \<Rightarrow> pyerr + tvalue" where
  "open_paren the_terminal = parse_symbol the_terminal [CHR 0x28]"

definition close_paren :: "tvalue list \<Rightarrow> pyerr + tvalue" where
  "close_paren the_terminal = parse_symbol the_terminal [CHR 0x29]"

definition open_bracket :: "tvalue list \<Rightarrow> pyerr + tvalue" where
  "open_bracket the_terminal = parse_symbol the_terminal [CHR 0x5B]"

definition close_bracket :: "tvalue list \<Rightarrow> pyerr + tvalue" where
  "close_bracket the_terminal = parse_symbol the_terminal [CHR 0x5D]"

definition open_brace :: "tvalue list \<Rightarrow> pyerr + tvalue" where
  "open_brace the_terminal = parse_symbol the_terminal [CHR 0x7B]"

definition close_brace :: "tvalue list \<Rightarrow> pyerr + tvalue" where
  "close_brace the_terminal = parse_symbol the_terminal [CHR 0x7D]"

text \<open>The tags of these handlers with their defaults, as a table.\<close>

definition literal_defaults :: "(string \<times> string) list" where
  "literal_defaults = [
     (''epsilon'', [CHR 0x26]),
     (''quote'', [CHR 0x27]),
     (''minus'', [CHR 0x2D]),
     (''plus'', [CHR 0x2B]),
     (''star'', [CHR 0x2A]),
     (''comma'', [CHR 0x2C]),
     (''colon'', [CHR 0x3A]),
     (''dot'', [CHR 0x2E]),
     (''double_quote'', [CHR 0x22]),
     (''percentage'', [CHR 0x25]),
     (''dollar'', [CHR 0x24]),
     (''at_sign'', [CHR 0x40]),
     (''sharp'', [CHR 0x23]),
     (''exclamation'', [CHR 0x21]),
     (''backtick'', [CHR 0x60]),
     (''tick'', [CHR 0xB4]),
     (''caret'', [CHR 0x5E]),
     (''tilde'', [CHR 0x7E]),
     (''question'', [CHR 0x3F]),
     (''equals'', [CHR 0x3D]),
     (''semicolon'', [CHR 0x3B]),
     (''slash'', [CHR 0x2F]),
     (''backslash'', [CHR 0x5C]),
     (''open_paren'', [CHR 0x28]),
     (''close_paren'', [CHR 0x29]),
     (''open_bracket'', [CHR 0x5B]),
     (''close_bracket'', [CHR 0x5D]),
     (''open_brace'', [CHR 0x7B]),
     (''close_brace'', [CHR 0x7D])]"

text \<open>
  The dispatch is the one of \<^verbatim>\<open>lark.Transformer\<close>, the base class: for a node with tag
  \<open>tag\<close> and converted children it calls the method of the transformer named \<open>tag\<close>; when
  there is no such method, its \<^verbatim>\<open>__default__\<close> returns the node as a tree with the same
  tag and the converted children. The transformer overrides neither. \<open>handlers\<close> is the
  table of the methods the class defines for tags. The two helpers \<^verbatim>\<open>_parse_symbol\<close> and
  \<^verbatim>\<open>_parse_symbols\<close> are methods of the class as well: a node with such a tag would call
  them with the children alone, a TypeError for the missing argument. The lookup by name
  also finds what the class inherits from \<^verbatim>\<open>lark.Transformer\<close> and \<^verbatim>\<open>object\<close> and what
  their constructors store in the instance, the method \<^verbatim>\<open>transform\<close> for example, and the
  dispatch calls it with the children. These attributes are outside the source and are
  the parameter \<open>inherited\<close>: for a name that the base classes define, what the call with
  the children gives.
\<close>

definition handlers ::
  "(tvalue \<Rightarrow> string) \<Rightarrow> string \<Rightarrow> (tvalue list \<Rightarrow> pyerr + tvalue) option" where
  "handlers other = map_of [
     (''non_terminal_start'', non_terminal_start),
     (''terminal'', terminal other),
     (''non_terminal'', non_terminal other),
     (''epsilon'', epsilon),
     (''quote'', quote),
     (''minus'', minus_tag),
     (''plus'', plus_tag),
     (''star'', star),
     (''comma'', comma),
     (''colon'', colon),
     (''dot'', dot),
     (''double_quote'', double_quote),
     (''percentage'', percentage),
     (''dollar'', dollar),
     (''at_sign'', at_sign),
     (''sharp'', sharp),
     (''exclamation'', exclamation),
     (''backtick'', backtick),
     (''tick'', tick),
     (''caret'', caret),
     (''tilde'', tilde),
     (''question'', question),
     (''equals'', equals),
     (''semicolon'', semicolon),
     (''slash'', slash),
     (''backslash'', backslash),
     (''open_paren'', open_paren),
     (''close_paren'', close_paren),
     (''open_bracket'', open_bracket),
     (''close_bracket'', close_bracket),
     (''open_brace'', open_brace),
     (''close_brace'', close_brace),
     (''production'', production)]"

definition helper_methods :: "string list" where
  "helper_methods = [''_parse_symbol'', ''_parse_symbols'']"

definition call_userfunc ::
  "(string \<Rightarrow> (tvalue list \<Rightarrow> pyerr + tvalue) option) \<Rightarrow> (tvalue \<Rightarrow> string)
     \<Rightarrow> string \<Rightarrow> tvalue list \<Rightarrow> pyerr + tvalue" where
  "call_userfunc inherited other tag children =
     (case handlers other tag of Some f \<Rightarrow> f children
      | None \<Rightarrow>
         if tag \<in> set helper_methods then Inl TypeError
         else (case inherited tag of Some g \<Rightarrow> g children
               | None \<Rightarrow> Inr (Tree tag children)))"

text \<open>
  A table of inherited attributes to run the dispatch on: the method \<^verbatim>\<open>transform\<close> of the
  base class, which reads the \<^verbatim>\<open>children\<close> of its argument and so raises AttributeError on
  a list.
\<close>

definition example_inherited :: "string \<Rightarrow> (tvalue list \<Rightarrow> pyerr + tvalue) option" where
  "example_inherited tag =
     (if tag = ''transform'' then Some (\<lambda>children. Inl AttributeError) else None)"

text \<open>
  Modelled from the spec: the equality of two symbols, of \<^verbatim>\<open>symbols.py\<close>, which is absent.
  The spec says that the rendering rule of a symbol returns its payload unchanged, that
  two symbols compare equal only if both variant tag and rendered text match, and that two
  symbols of the same variant and equal text are interchangeable.
\<close>

datatype variant = TerminalVariant | NonTerminalVariant

fun variant_of :: "tvalue \<Rightarrow> variant option" where
  "variant_of (Terminal x) = Some TerminalVariant"
| "variant_of (NonTerminal x) = Some NonTerminalVariant"
| "variant_of v = None"

fun rendered :: "tvalue \<Rightarrow> tvalue option" where
  "rendered (Terminal x) = Some x"
| "rendered (NonTerminal x) = Some x"
| "rendered v = None"

definition symbol_eq :: "tvalue \<Rightarrow> tvalue \<Rightarrow> bool" where
  "symbol_eq a b =
     (isinstance_symbol a \<and> isinstance_symbol b
      \<and> variant_of a = variant_of b \<and> rendered a = rendered b)"

text \<open>The tags for which the class defines a handler.\<close>

definition handled_tags :: "string list" where
  "handled_tags = [''non_terminal_start'', ''terminal'', ''non_terminal'']
     @ map fst literal_defaults @ [''production'']"

section \<open>Properties of LockableType\<close>

subsection \<open>Reading the store\<close>


lemma getattr_attr_of: "attr_of w a name = Some v \<Longrightarrow> getattr a name w = (Inr v, w)"
  by (auto simp: attr_of_def getattr_def split: option.splits)









lemma attr_of_allocated: "attr_of w a name = Some v \<Longrightarrow> heap w a \<noteq> None"
  by (auto simp: attr_of_def split: option.splits)

subsection \<open>Attribute assignment\<close>




subsection \<open>What lock() stores\<close>

lemma lock_result:
  assumes "heap w self = Some obj" "cls obj = Subclass c"
    and "attrs obj ''locked'' = Some l" "\<not> truthy l"
    and "attrs obj ''_str'' = None \<or> attrs obj ''_str'' = Some BoundStr"
    and "attrs obj ''_len'' = None \<or> attrs obj ''_len'' = Some BoundLen"
    and "subclass_str E c (attrs obj) = Inr s"
    and "subclass_len E c ((attrs obj)(''str'' \<mapsto> PyStr s, ''_str'' \<mapsto> LambdaStr self)) = Inr n"
    and "0 \<le> n" "n < 2 ^ 63"
  shows "lock E self w = (Inr (),
     w\<lparr>heap := (heap w)(self \<mapsto> obj\<lparr>attrs := (attrs obj)(''str'' \<mapsto> PyStr s,
        ''_str'' \<mapsto> LambdaStr self, ''len'' \<mapsto> PyInt n, ''_len'' \<mapsto> LambdaLen self,
        ''_hash'' \<mapsto> PyInt (builtin_hash E (PyStr s)), ''locked'' \<mapsto> PyBool True)\<rparr>)\<rparr>)"
  using assms
  by (auto simp: lock_def py_bind_def getattr_def builtin_str_def str_method_def method_str_def
      py_return_def py_raise_def setattr_def object_setattr_def set_attr_def builtin_len_def
      len_method_def method_len_def check_len_def)

lemma lock_caches:
  assumes "cls_of w self = Some (Subclass c)"
    and "attr_of w self ''locked'' = Some l" "\<not> truthy l"
    and "attr_of w self ''_str'' = None \<or> attr_of w self ''_str'' = Some BoundStr"
    and "attr_of w self ''_len'' = None \<or> attr_of w self ''_len'' = Some BoundLen"
    and "subclass_str E c (dict_of w self) = Inr s"
    and "subclass_len E c ((dict_of w self)(''str'' \<mapsto> PyStr s, ''_str'' \<mapsto> LambdaStr self)) = Inr n"
    and "0 \<le> n" "n < 2 ^ 63"
  shows "lock E self w = (Inr (),
     set_attr self ''locked'' (PyBool True)
       (set_attr self ''_hash'' (PyInt (builtin_hash E (PyStr s)))
         (set_attr self ''_len'' (LambdaLen self)
           (set_attr self ''len'' (PyInt n)
             (set_attr self ''_str'' (LambdaStr self)
               (set_attr self ''str'' (PyStr s) w))))))"
proof -
  from assms(1) obtain obj where obj: "heap w self = Some obj" "cls obj = Subclass c"
    by (auto simp: cls_of_def)
  have d: "dict_of w self = attrs obj" using obj by (simp add: dict_of_def)
  have a: "\<And>k. attr_of w self k = attrs obj k" using obj by (simp add: attr_of_def)
  show ?thesis
    using lock_result[OF obj, of l E s n] assms(2-) obj
    by (simp add: d a set_attr_def)
qed

lemmas run_defs = new_text_object_def construct_def py_bind_def new_object_def init_def
  empty_world_def object_setattr_def set_attr_def setattr_def getattr_def get_unique_hash_def
  py_return_def py_raise_def lock_def unlock_def builtin_str_def str_method_def method_str_def
  builtin_len_def len_method_def method_len_def check_len_def text_env_def text_str_def
  text_len_def attr_of_def cls_of_def dict_of_def hash_method_def slot_hash_def Let_def eq_def
  deepcopy_def new_def




subsection \<open>lock() and unlock()\<close>

lemma lockable_lock:
  assumes "lockable E w self s n"
  shows "lock E self w = (Inr (), lock_writes E self s n w)"
  using assms unfolding lockable_def lock_writes_def
  by (auto split: option.splits pyclass.splits intro!: lock_caches)


lemma unlock_locked:
  assumes "attr_of w self ''locked'' = Some l" "truthy l" "constructed w self t"
  shows "unlock E self w = (Inr (), unlock_writes self t w)"
proof -
  from assms(1) obtain obj where obj: "heap w self = Some obj" "attrs obj ''locked'' = Some l"
    by (auto simp: attr_of_def split: option.splits)
  show ?thesis
    using obj assms(2,3)
    by (auto simp: unlock_def unlock_writes_def constructed_def attr_of_def py_bind_def
        getattr_def object_setattr_def setattr_def set_attr_def py_return_def)
qed

lemma unlock_unlocked:
  assumes "attr_of w self ''locked'' = Some l" "\<not> truthy l"
  shows "unlock E self w = (Inr (), w)"
  using assms getattr_attr_of[OF assms(1)]
  by (simp add: unlock_def py_bind_def py_return_def)

lemmas state_defs = lockable_def locked_as_def constructed_def lock_writes_def unlock_writes_def






subsection \<open>Equality\<close>



lemma construct_result:
  "construct E c w = (Inr (next_addr w),
     w\<lparr>heap := (heap w)(next_addr w \<mapsto> \<lparr>cls = c, attrs = [''locked'' \<mapsto> PyBool False,
           ''str'' \<mapsto> PyStr [], ''_hash'' \<mapsto> PyInt (initial_hash w + 1),
           ''_original_len'' \<mapsto> BoundLen, ''_original_str'' \<mapsto> BoundStr,
           ''_original_hash'' \<mapsto> PyInt (initial_hash w + 1)]\<rparr>),
       next_addr := Suc (next_addr w), initial_hash := initial_hash w + 1\<rparr>)"
  by (simp add: construct_def new_object_def init_def py_bind_def object_setattr_def set_attr_def
      setattr_def getattr_def get_unique_hash_def py_return_def)

subsection \<open>Copies\<close>


lemma deepcopy_val_id: "deepcopy_val v = v"
  by (cases v) simp_all

lemma deepcopy_val_comp: "map_option deepcopy_val \<circ> m = m"
proof -
  have "deepcopy_val = id" by (rule ext) (simp add: deepcopy_val_id)
  then show ?thesis by (simp add: option.map_id0)
qed

lemma deepcopy_result:
  assumes "heap w self \<noteq> None"
  shows "deepcopy self w = (Inr (next_addr w), copy_store self w)"
  using assms by (auto simp: copy_store_def deepcopy_def)

lemma copy_store_copy:
  assumes "heap w self \<noteq> None"
  shows "attr_of (copy_store self w) (next_addr w) k = attr_of w self k"
    and "dict_of (copy_store self w) (next_addr w) = dict_of w self"
    and "cls_of (copy_store self w) (next_addr w) = cls_of w self"
  using assms
  by (auto simp: copy_store_def deepcopy_def attr_of_def dict_of_def cls_of_def deepcopy_val_comp)

lemma copy_store_other:
  assumes "b \<noteq> next_addr w"
  shows "heap (copy_store self w) b = heap w b"
  using assms by (auto simp: copy_store_def deepcopy_def split: option.splits)



lemma lock_locked:
  assumes "attr_of w self ''locked'' = Some l" "truthy l"
  shows "lock E self w = (Inr (), w)"
  using assms getattr_attr_of[OF assms(1)]
  by (simp add: lock_def py_bind_def py_return_def)

lemma new_cases:
  assumes "attr_of w self ''locked'' = Some l"
  shows "\<not> truthy l \<Longrightarrow> new E self True w = (Inr (next_addr w), copy_store self w)"
    and "truthy l \<Longrightarrow> constructed w self t \<Longrightarrow>
           new E self True w = (Inr (next_addr w), unlock_writes (next_addr w) t (copy_store self w))"
    and "truthy l \<Longrightarrow> new E self False w = (Inr (next_addr w), copy_store self w)"
    and "\<not> truthy l \<Longrightarrow> lockable E (copy_store self w) (next_addr w) s n \<Longrightarrow>
           new E self False w
             = (Inr (next_addr w), lock_writes E (next_addr w) s n (copy_store self w))"
proof -
  let ?c = "next_addr w" and ?wc = "copy_store self w"
  have al: "heap w self \<noteq> None" using assms by (rule attr_of_allocated)
  have d: "deepcopy self w = (Inr ?c, ?wc)" using al by (rule deepcopy_result)
  have cl: "attr_of ?wc ?c ''locked'' = Some l"
    using assms copy_store_copy(1)[OF al] by simp
  show "new E self True w = (Inr ?c, ?wc)" if "\<not> truthy l"
    using d unlock_unlocked[OF cl that] by (simp add: new_def py_bind_def py_return_def)
  show "new E self True w = (Inr ?c, unlock_writes ?c t ?wc)" if "truthy l" "constructed w self t"
  proof -
    have "constructed ?wc ?c t"
      using that(2) copy_store_copy(1)[OF al] by (simp add: constructed_def)
    from unlock_locked[OF cl that(1) this] d show ?thesis
      by (simp add: new_def py_bind_def py_return_def)
  qed
  show "new E self False w = (Inr ?c, ?wc)" if "truthy l"
    using d lock_locked[OF cl that] by (simp add: new_def py_bind_def py_return_def)
  show "new E self False w = (Inr ?c, lock_writes E ?c s n ?wc)"
    if "\<not> truthy l" "lockable E ?wc ?c s n"
    using d lockable_lock[OF that(2)] by (simp add: new_def py_bind_def py_return_def)
qed






subsection \<open>Equality, constructors and copies\<close>

lemma hash_method_snd: "snd (hash_method x w) = w"
  by (auto simp: hash_method_def py_bind_def getattr_def py_return_def py_raise_def
      split: option.splits pyval.splits)

lemma two_fresh_unequal:
  assumes "0 \<le> initial_hash w" "initial_hash w + 2 < 2 ^ 63"
  shows "fst (two_fresh_eq E c1 c2 w) = Inr False"
  using assms
  by (simp add: two_fresh_eq_def py_bind_def construct_result eq_def hash_method_def
      getattr_def py_return_def slot_hash_def Let_def)

lemma construct_then_unequal:
  assumes "attr_of w x ''_hash'' = Some (PyInt tx)" "0 \<le> tx" "tx \<le> initial_hash w"
    and "initial_hash w + 1 < 2 ^ 63" "x < next_addr w"
  shows "fst (construct_then_eq E c x w) = Inr False"
proof -
  from assms(1) obtain obj where obj: "heap w x = Some obj" "attrs obj ''_hash'' = Some (PyInt tx)"
    by (auto simp: attr_of_def split: option.splits)
  show ?thesis
    using obj assms(2-)
    by (simp add: construct_then_eq_def py_bind_def construct_result eq_def hash_method_def
        getattr_def py_return_def slot_hash_def Let_def)
qed

lemma copy_eq_source:
  assumes "attr_of w x ''locked'' = Some l" "\<not> truthy l"
    and "attr_of w x ''_hash'' = Some (PyInt h)" "x < next_addr w"
  shows "copy_eq E x w = (Inr True, copy_store x w)"
proof -
  let ?c = "next_addr w" and ?wc = "copy_store x w"
  have al: "heap w x \<noteq> None" using assms(1) by (rule attr_of_allocated)
  have n: "new E x True w = (Inr ?c, ?wc)"
    using new_cases(1)[OF assms(1,2)] .
  have hc: "attr_of ?wc ?c ''_hash'' = Some (PyInt h)"
    using copy_store_copy(1)[OF al] assms(3) by simp
  have "heap ?wc x = heap w x"
    using assms(4) by (intro copy_store_other) simp
  then have hx: "attr_of ?wc x ''_hash'' = Some (PyInt h)"
    using assms(3) by (simp add: attr_of_def)
  show ?thesis
    using n getattr_attr_of[OF hc] getattr_attr_of[OF hx]
    by (simp add: copy_eq_def py_bind_def eq_def hash_method_def py_return_def)
qed

text \<open>
  C10, as the claim states it, fails: an unlocked instance and the copy that
  \<^verbatim>\<open>new(unlocked=True)\<close> makes of it are two distinct unlocked values, and they compare
  equal, the copy carrying the identity token of its source.
\<close>

theorem unlocked_copy_equals_source_counterexample:
  "fst (new (text_env example_hash) 0 True word_a) = Inr 1
   \<and> attr_of (snd (new (text_env example_hash) 0 True word_a)) 0 ''locked'' = Some (PyBool False)
   \<and> attr_of (snd (new (text_env example_hash) 0 True word_a)) 1 ''locked'' = Some (PyBool False)
   \<and> fst (copy_eq (text_env example_hash) 0 word_a) = Inr True"
  by (simp add: copy_eq_def word_a_def run_defs)

text \<open>
  C10, amended. Equality of two instances returns \<open>b\<close> exactly when both hashes are
  returned and \<open>b\<close> says whether they are equal: nothing but the current hash is read. Two
  instances made by two constructor calls, of any classes, with identity tokens that
  \<^verbatim>\<open>hash\<close> returns as they are, compare unequal while unlocked, whether the second call
  follows the first at once or the first instance still holds a token handed out
  earlier; an unlocked instance and the copy that \<^verbatim>\<open>new(unlocked=True)\<close> makes of it
  compare equal; and two locked instances, of any classes, compare equal exactly when
  \<^verbatim>\<open>hash\<close> gives the same word for the hashes of their cached strings, so whenever these
  hashes coincide.
\<close>

theorem eq_iff_hashes_equal:
  "(fst (eq E x (Ref y) w) = Inr b \<longleftrightarrow>
      (\<exists>hx hy. fst (hash_method x w) = Inr hx \<and> fst (hash_method y w) = Inr hy
          \<and> b = (hx = hy)))
   \<and> (0 \<le> initial_hash w \<and> initial_hash w + 2 < 2 ^ 63
        \<longrightarrow> fst (two_fresh_eq E c1 c2 w) = Inr False)
   \<and> (attr_of w x ''_hash'' = Some (PyInt tx) \<and> 0 \<le> tx \<and> tx \<le> initial_hash w
        \<and> initial_hash w + 1 < 2 ^ 63 \<and> x < next_addr w
        \<longrightarrow> fst (construct_then_eq E c x w) = Inr False)
   \<and> (attr_of w x ''locked'' = Some l \<and> \<not> truthy l
        \<and> attr_of w x ''_hash'' = Some (PyInt h) \<and> x < next_addr w
        \<longrightarrow> fst (copy_eq E x w) = Inr True)
   \<and> (locked_as E w x s n \<and> locked_as E w y s' n'
        \<longrightarrow> fst (eq E x (Ref y) w)
              = Inr (slot_hash (builtin_hash E (PyStr s)) = slot_hash (builtin_hash E (PyStr s')))
          \<and> (builtin_hash E (PyStr s) = builtin_hash E (PyStr s')
                \<longrightarrow> fst (eq E x (Ref y) w) = Inr True))"
proof (intro conjI impI)
  obtain rx where rx: "hash_method x w = (rx, w)"
    using hash_method_snd[of x w] by (cases "hash_method x w") simp
  obtain ry where ry: "hash_method y w = (ry, w)"
    using hash_method_snd[of y w] by (cases "hash_method y w") simp
  show "fst (eq E x (Ref y) w) = Inr b \<longleftrightarrow>
      (\<exists>hx hy. fst (hash_method x w) = Inr hx \<and> fst (hash_method y w) = Inr hy
          \<and> b = (hx = hy))"
    using rx ry by (cases rx; cases ry) (auto simp: eq_def py_bind_def py_return_def)
next
  assume "0 \<le> initial_hash w \<and> initial_hash w + 2 < 2 ^ 63"
  then show "fst (two_fresh_eq E c1 c2 w) = Inr False"
    using two_fresh_unequal[of w E c1 c2] by simp
next
  assume "attr_of w x ''_hash'' = Some (PyInt tx) \<and> 0 \<le> tx \<and> tx \<le> initial_hash w
        \<and> initial_hash w + 1 < 2 ^ 63 \<and> x < next_addr w"
  then show "fst (construct_then_eq E c x w) = Inr False"
    using construct_then_unequal[of w x tx E c] by simp
next
  assume "attr_of w x ''locked'' = Some l \<and> \<not> truthy l
        \<and> attr_of w x ''_hash'' = Some (PyInt h) \<and> x < next_addr w"
  then show "fst (copy_eq E x w) = Inr True"
    using copy_eq_source[of w x l h E] by simp
next
  assume a: "locked_as E w x s n \<and> locked_as E w y s' n'"
  then show e: "fst (eq E x (Ref y) w)
      = Inr (slot_hash (builtin_hash E (PyStr s)) = slot_hash (builtin_hash E (PyStr s')))"
    by (auto simp: locked_as_def eq_def py_bind_def hash_method_def py_return_def
        dest!: getattr_attr_of)
  assume "builtin_hash E (PyStr s) = builtin_hash E (PyStr s')"
  with e show "fst (eq E x (Ref y) w) = Inr True" by simp
qed

theorem eq_iff_hashes_equal_witness:
  "0 \<le> initial_hash empty_world \<and> initial_hash empty_world + 2 < 2 ^ 63
   \<and> fst (two_fresh_eq (text_env example_hash) LockableType (Subclass ''Word'') empty_world)
        = Inr False
   \<and> attr_of word_a 0 ''locked'' = Some (PyBool False) \<and> \<not> truthy (PyBool False)
   \<and> attr_of word_a 0 ''_hash'' = Some (PyInt 1) \<and> 0 < next_addr word_a
   \<and> (0::int) \<le> 1 \<and> 1 \<le> initial_hash word_a \<and> initial_hash word_a + 1 < 2 ^ 63
   \<and> fst (construct_then_eq (text_env example_hash) (Subclass ''Name'') 0 word_a) = Inr False
   \<and> fst (copy_eq (text_env example_hash) 0 word_a) = Inr True
   \<and> locked_as (text_env example_hash) word_and_name_a 0 ''a'' 1
   \<and> locked_as (text_env example_hash) word_and_name_a 1 ''a'' 1
   \<and> cls_of word_and_name_a 0 = Some (Subclass ''Word'')
   \<and> cls_of word_and_name_a 1 = Some (Subclass ''Name'')
   \<and> fst (eq (text_env example_hash) 0 (Ref 1) word_and_name_a) = Inr True"
proof -
  let ?E = "text_env example_hash"
  have i: "0 \<le> initial_hash empty_world \<and> initial_hash empty_world + 2 < 2 ^ 63"
    by (simp add: empty_world_def)
  have u: "attr_of word_a 0 ''locked'' = Some (PyBool False)"
    "attr_of word_a 0 ''_hash'' = Some (PyInt 1)" "0 < next_addr word_a"
    "1 \<le> initial_hash word_a" "initial_hash word_a + 1 < 2 ^ 63"
    by (simp_all add: word_a_def run_defs)
  have a: "locked_as ?E word_and_name_a 0 ''a'' 1"
    "locked_as ?E word_and_name_a 1 ''a'' 1"
    "cls_of word_and_name_a 0 = Some (Subclass ''Word'')"
    "cls_of word_and_name_a 1 = Some (Subclass ''Name'')"
    by (simp_all add: word_and_name_a_def locked_pair_def state_defs run_defs)
  show ?thesis
    using i u a
      eq_iff_hashes_equal[where E = ?E and w = empty_world and ?c1.0 = LockableType
        and ?c2.0 = "Subclass ''Word''"]
      eq_iff_hashes_equal[where E = ?E and w = word_a and x = 0 and l = "PyBool False"
        and h = 1 and tx = 1 and c = "Subclass ''Name''"]
      eq_iff_hashes_equal[where E = ?E and w = word_and_name_a and x = 0 and y = 1
        and s = "''a''" and s' = "''a''" and n = 1 and n' = 1]
    by simp
qed

section \<open>Properties of the tree transformer\<close>

lemma production_loop_filter:
  "production_loop (Production False acc) cs
     = Inr (Production False (acc @ filter isinstance_symbol cs))"
  by (induction cs arbitrary: acc) simp_all

text \<open>
  C3. For every list of converted children the \<^verbatim>\<open>production\<close> handler returns, without
  raising, a new production that is not locked and holds exactly the children that are a
  Terminal or a NonTerminal, in the order of the list; any other child, a production for
  example, is skipped, and the empty list gives the empty production.
\<close>

theorem production_keeps_symbols_in_order:
  "production cs = Inr (Production False (filter isinstance_symbol cs))
   \<and> production [] = Inr (Production False [])
   \<and> production [Terminal (StrArg ''a''), Production False [Terminal (StrArg ''b'')],
         NonTerminal (StrArg ''A'')]
       = Inr (Production False [Terminal (StrArg ''a''), NonTerminal (StrArg ''A'')])"
  by (simp add: production_def empty_production_def production_loop_filter[of "[]", simplified])

text \<open>
  C8. For every list of children the \<^verbatim>\<open>terminal\<close> handler returns one Terminal and the
  \<^verbatim>\<open>non_terminal\<close> handler one NonTerminal, built from the concatenation, in the order of
  the children and with no separator, of the string rendering of each child; three
  tokens \<^verbatim>\<open>a\<close>, \<^verbatim>\<open>b\<close>, \<^verbatim>\<open>c\<close> give the single \<^verbatim>\<open>Terminal("abc")\<close>.
\<close>

theorem parse_symbols_concatenates:
  "terminal other cs = Inr (Terminal (StrArg (concat (map (py_str other) cs))))
   \<and> non_terminal other cs = Inr (NonTerminal (StrArg (concat (map (py_str other) cs))))
   \<and> terminal other [Token ''LCASE_LETTER'' ''a'', Token ''LCASE_LETTER'' ''b'',
         Token ''LCASE_LETTER'' ''c''] = Inr (Terminal (StrArg ''abc''))"
  by (simp add: terminal_def non_terminal_def parse_symbols_def)

lemmas literal_handler_defs = epsilon_def quote_def minus_tag_def plus_tag_def star_def comma_def
  colon_def dot_def double_quote_def percentage_def dollar_def at_sign_def sharp_def
  exclamation_def backtick_def tick_def caret_def tilde_def question_def equals_def
  semicolon_def slash_def backslash_def open_paren_def close_paren_def open_bracket_def
  close_bracket_def open_brace_def close_brace_def

text \<open>Every tag of the table of defaults is dispatched to \<^verbatim>\<open>_parse_symbol\<close> with its default.\<close>

lemma literal_handlers:
  assumes "(tag, d) \<in> set literal_defaults"
  shows "call_userfunc inherited other tag cs = parse_symbol cs d"
  using assms unfolding literal_defaults_def set_simps insert_iff empty_iff prod.inject
  by (elim disjE conjE FalseE; simp add: call_userfunc_def handlers_def literal_handler_defs)

text \<open>
  C2. With no children a literal handler builds its Terminal from the default string of
  its tag: \<^verbatim>\<open>epsilon\<close> gives \<^verbatim>\<open>Terminal("&")\<close> and \<^verbatim>\<open>quote\<close> gives \<^verbatim>\<open>Terminal("'")\<close>. With
  children, \<^verbatim>\<open>_parse_symbol\<close> hands the list of children itself to \<^verbatim>\<open>Terminal\<close>: for the
  one token \<^verbatim>\<open>'\<close> the \<^verbatim>\<open>quote\<close> handler returns the Terminal built from the one-element list,
  which is not the Terminal built from the text \<^verbatim>\<open>'\<close>.
\<close>

theorem quote_passes_children_list:
  "quote [Token ''QUOTE'' [CHR 0x27]] = Inr (Terminal (ListArg [Token ''QUOTE'' [CHR 0x27]]))
   \<and> quote [Token ''QUOTE'' [CHR 0x27]] \<noteq> Inr (Terminal (StrArg [CHR 0x27]))
   \<and> quote [] = Inr (Terminal (StrArg [CHR 0x27]))
   \<and> epsilon [] = Inr (Terminal (StrArg ''&''))"
  by (simp add: quote_def epsilon_def parse_symbol_def)

lemma handlers_None: "handlers other tag = None \<longleftrightarrow> tag \<notin> set handled_tags"
  unfolding handlers_def handled_tags_def literal_defaults_def map_of_eq_None_iff
  by simp

text \<open>
  C4, as the claim states it, fails: the tag \<^verbatim>\<open>productions\<close> of the tree in the class's
  own comment has no handler, and the node comes back as a tree, with no error.
\<close>

theorem unknown_tag_counterexample:
  "call_userfunc example_inherited (\<lambda>v. []) ''productions'' [NonTerminal (StrArg ''S'')]
     = Inr (Tree ''productions'' [NonTerminal (StrArg ''S'')])"
  by (simp add: call_userfunc_def handlers_def helper_methods_def example_inherited_def)

text \<open>
  C4, amended. For every node whose tag names no attribute of the transformer, neither a
  method that the class defines nor one that it inherits, no error is raised: the result
  is the tree node with the same tag and the converted children, and no Production or
  Symbol is built for it.
\<close>

theorem unknown_tag_returns_tree:
  assumes "tag \<notin> set handled_tags" and "tag \<notin> set helper_methods"
    and "inherited tag = None"
  shows "call_userfunc inherited other tag children = Inr (Tree tag children)
       \<and> (\<forall>e. call_userfunc inherited other tag children \<noteq> Inl e)"
  using assms handlers_None[of other tag] by (simp add: call_userfunc_def)

theorem unknown_tag_returns_tree_witness:
  "''non_terminals'' \<notin> set handled_tags \<and> ''non_terminals'' \<notin> set helper_methods
   \<and> example_inherited ''non_terminals'' = None
   \<and> call_userfunc example_inherited (\<lambda>v. []) ''non_terminals''
         [Production False [Terminal (StrArg ''a'')]]
       = Inr (Tree ''non_terminals'' [Production False [Terminal (StrArg ''a'')]])
   \<and> call_userfunc example_inherited (\<lambda>v. []) ''transform''
         [Production False [Terminal (StrArg ''a'')]] = Inl AttributeError"
proof -
  have h: "''non_terminals'' \<notin> set handled_tags" "''non_terminals'' \<notin> set helper_methods"
    "example_inherited ''non_terminals'' = None"
    by (simp_all add: handled_tags_def literal_defaults_def helper_methods_def
        example_inherited_def)
  have t: "call_userfunc example_inherited (\<lambda>v. []) ''transform''
         [Production False [Terminal (StrArg ''a'')]] = Inl AttributeError"
    by (simp add: call_userfunc_def handlers_def helper_methods_def example_inherited_def)
  show ?thesis
    using h t unknown_tag_returns_tree[where inherited = example_inherited
        and tag = "''non_terminals''", OF h]
    by simp
qed

section \<open>Equality of symbols\<close>

text \<open>
  C5. For all texts \<open>t\<close> and \<open>t2\<close>, \<^verbatim>\<open>Terminal(t)\<close> and \<^verbatim>\<open>NonTerminal(t)\<close> have the same
  rendered text and are not equal, in either order; and \<^verbatim>\<open>Terminal(t)\<close> equals
  \<^verbatim>\<open>Terminal(t2)\<close> exactly when \<open>t\<close> equals \<open>t2\<close>.
\<close>

theorem symbols_equal_by_variant_and_text:
  "rendered (Terminal (StrArg t)) = rendered (NonTerminal (StrArg t))
   \<and> \<not> symbol_eq (Terminal (StrArg t)) (NonTerminal (StrArg t))
   \<and> \<not> symbol_eq (NonTerminal (StrArg t)) (Terminal (StrArg t))
   \<and> (symbol_eq (Terminal (StrArg t)) (Terminal (StrArg t2)) \<longleftrightarrow> t = t2)"
  by (simp add: symbol_eq_def)

end
